theory Spec2Isabelle
  imports Main "HOL-Library.Sublist"
begin

section \<open>The panorama pipeline of \<open>main.py\<close>\<close>

text \<open>
  The program is a single Python module with four functions: \<open>scan_images\<close>,
  \<open>create_panorama\<close>, \<open>save_image\<close> and \<open>main\<close>. Everything it does to the outside
  world goes through five library calls: \<open>os.listdir\<close>, \<open>cv2.imread\<close>,
  \<open>cv2.Stitcher_create\<close> / \<open>stitcher.stitch\<close>, \<open>cv2.imwrite\<close> and \<open>logging\<close>.
  The model keeps those calls as parameters (the record \<open>env\<close>) and makes every call
  visible as an event of a trace, so that "the engine is invoked once" or "nothing is
  written" are statements about the trace a function returns.

  A library call either returns a value or raises; a raised exception is \<open>Inl\<close> and
  propagates as in Python, since the module has no \<open>try\<close> block.
\<close>

subsection \<open>Data\<close>

text \<open>An exception, identified by the name of its class.\<close>

datatype exn = Exn string

datatype level = INFO | WARNING | ERROR

text \<open>
  The events of a run, in the order the calls happen. \<open>'img\<close> is the raster type
  (\<open>np.ndarray\<close>); Python's \<open>None\<close> in a place where a raster is expected is the
  \<open>None\<close> of \<open>'img option\<close>.
\<close>

datatype 'img event =
    Log level string
  | Listdir string
  | Imread string
  | StitcherCreate
  | Stitch "'img option list"
  | Imwrite string 'img

text \<open>
  The library, as the module sees it:
  \<^item> \<open>listdir d\<close>: the names in directory \<open>d\<close>, or an exception;
  \<^item> \<open>imread p\<close>: the decoded raster, \<open>None\<close> when the file cannot be read or decoded;
  \<^item> \<open>stitch imgs\<close>: a status code and the produced raster;
  \<^item> \<open>imwrite p img\<close>: \<open>True\<close> when the file was written, \<open>False\<close> otherwise.
\<close>

record 'img env =
  listdir :: "string \<Rightarrow> exn + string list"
  imread :: "string \<Rightarrow> exn + 'img option"
  stitch :: "'img option list \<Rightarrow> exn + (int \<times> 'img option)"
  imwrite :: "string \<Rightarrow> 'img \<Rightarrow> exn + bool"

text \<open>The value of \<open>cv2.Stitcher_OK\<close>.\<close>

definition Stitcher_OK :: int where
  "Stitcher_OK = 0"

subsection \<open>String helpers of the Python runtime\<close>

text \<open>
  \<open>str.lower\<close> on the ASCII letters; every other character is left as it is. File
  names are strings of 8-bit characters here.
\<close>

definition lower_char :: "char \<Rightarrow> char" where
  "lower_char c =
     (case map_of (zip ''ABCDEFGHIJKLMNOPQRSTUVWXYZ'' ''abcdefghijklmnopqrstuvwxyz'') c of
        Some d \<Rightarrow> d
      | None \<Rightarrow> c)"

definition lower :: "string \<Rightarrow> string" where
  "lower s = map lower_char s"

text \<open>\<open>s.endswith(t)\<close> for a tuple \<open>t\<close> of suffixes: some member of \<open>t\<close> is a suffix.\<close>

definition endswith :: "string \<Rightarrow> string list \<Rightarrow> bool" where
  "endswith s sufs = list_ex (\<lambda>suf. suffix suf s) sufs"

text \<open>\<open>os.path.join(a, b)\<close> of \<open>posixpath\<close>, for two arguments.\<close>

definition path_join :: "string \<Rightarrow> string \<Rightarrow> string" where
  "path_join a b =
     (if prefix ''/'' b then b
      else if a = [] \<or> suffix ''/'' a then a @ b
      else a @ ''/'' @ b)"

text \<open>Decimal output of \<open>str\<close> (and of an f-string field) for integers.\<close>

fun str_nat :: "nat \<Rightarrow> string" where
  "str_nat n =
     (if n < 10 then [''0123456789'' ! n]
      else str_nat (n div 10) @ [''0123456789'' ! (n mod 10)])"

declare str_nat.simps [simp del]

definition str_int :: "int \<Rightarrow> string" where
  "str_int i = (if i < 0 then ''-'' @ str_nat (nat (- i)) else str_nat (nat i))"

subsection \<open>The functions of the module\<close>

text \<open>
  The list comprehension \<open>[cv2.imread(img_file) for img_file in image_files]\<close>: the
  files are read from left to right, and an exception ends the loop.
\<close>

fun imread_all :: "'img env \<Rightarrow> string list \<Rightarrow> 'img event list \<times> (exn + 'img option list)" where
  "imread_all env [] = ([], Inr [])"
| "imread_all env (f # fs) =
     (case imread env f of
        Inl e \<Rightarrow> ([Imread f], Inl e)
      | Inr img \<Rightarrow>
          (case imread_all env fs of
             (tr, Inl e) \<Rightarrow> (Imread f # tr, Inl e)
           | (tr, Inr imgs) \<Rightarrow> (Imread f # tr, Inr (img # imgs))))"

definition create_panorama ::
  "'img env \<Rightarrow> string list \<Rightarrow> 'img event list \<times> (exn + 'img option)" where
  "create_panorama env image_files =
     (let tr0 = [Log INFO (''Stitching '' @ str_nat (length image_files)
                             @ '' images into a panorama.'')]
      in case imread_all env image_files of
           (tr1, Inl e) \<Rightarrow> (tr0 @ tr1, Inl e)
         | (tr1, Inr images) \<Rightarrow>
             if list_ex (\<lambda>img. img = None) images
             then (tr0 @ tr1 @ [Log ERROR ''One or more images could not be loaded.''],
                   Inr None)
             else
               (case stitch env images of
                  Inl e \<Rightarrow> (tr0 @ tr1 @ [StitcherCreate, Stitch images], Inl e)
                | Inr (status, panorama) \<Rightarrow>
                    if status \<noteq> Stitcher_OK
                    then (tr0 @ tr1 @ [StitcherCreate, Stitch images,
                            Log ERROR (''Failed to stitch images, error code: ''
                                         @ str_int status)],
                          Inr None)
                    else (tr0 @ tr1 @ [StitcherCreate, Stitch images,
                            Log INFO ''Panorama successfully created.''],
                          Inr panorama)))"

definition save_image ::
  "'img env \<Rightarrow> 'img \<Rightarrow> string \<Rightarrow> 'img event list \<times> (exn + unit)" where
  "save_image env img file_name =
     (case imwrite env file_name img of
        Inl e \<Rightarrow> ([Imwrite file_name img], Inl e)
      | Inr written \<Rightarrow>
          ([Imwrite file_name img, Log INFO (''Panorama saved as '' @ file_name)],
           Inr ()))"

definition supported_extensions :: "string list" where
  "supported_extensions = [''.jpg'', ''.jpeg'', ''.png'']"

definition scan_images ::
  "'img env \<Rightarrow> string \<Rightarrow> 'img event list \<times> (exn + string list)" where
  "scan_images env directory =
     (case listdir env directory of
        Inl e \<Rightarrow> ([Listdir directory], Inl e)
      | Inr names \<Rightarrow>
          (let image_files =
                 map (path_join directory)
                   (filter (\<lambda>f. endswith (lower f) supported_extensions) names)
           in ([Listdir directory]
                 @ (if image_files = []
                    then [Log WARNING ''No image files found in the directory.'']
                    else []),
               Inr image_files)))"

text \<open>
  \<open>main\<close>, from the parsed argument \<open>args.input_dir\<close> on. The output name is the
  constant of the source.
\<close>

definition main :: "'img env \<Rightarrow> string \<Rightarrow> 'img event list \<times> (exn + unit)" where
  "main env input_dir =
     (case scan_images env input_dir of
        (tr0, Inl e) \<Rightarrow> (tr0, Inl e)
      | (tr0, Inr image_files) \<Rightarrow>
          if image_files = []
          then (tr0 @ [Log ERROR ''No images found to process. Exiting program.''], Inr ())
          else
            (case create_panorama env image_files of
               (tr1, Inl e) \<Rightarrow> (tr0 @ tr1, Inl e)
             | (tr1, Inr None) \<Rightarrow>
                 (tr0 @ tr1 @ [Log ERROR ''Failed to create a panorama.''], Inr ())
             | (tr1, Inr (Some panorama)) \<Rightarrow>
                 (case save_image env panorama ''panorama_output.jpg'' of
                    (tr2, r) \<Rightarrow> (tr0 @ tr1 @ tr2, r))))"

text \<open>
  The exit status of the interpreter after \<open>main()\<close>: 0 when \<open>main\<close> returns, 1 when an
  exception reaches the top level. The module never calls \<open>sys.exit\<close>.
\<close>

fun exit_status :: "exn + unit \<Rightarrow> int" where
  "exit_status (Inr _) = 0"
| "exit_status (Inl _) = 1"

subsection \<open>Reading a trace\<close>

text \<open>The log records, the engine invocations and the file writes of a trace.\<close>

fun log_records :: "'img event list \<Rightarrow> (level \<times> string) list" where
  "log_records [] = []"
| "log_records (Log l m # tr) = (l, m) # log_records tr"
| "log_records (_ # tr) = log_records tr"

fun stitch_calls :: "'img event list \<Rightarrow> 'img option list list" where
  "stitch_calls [] = []"
| "stitch_calls (Stitch imgs # tr) = imgs # stitch_calls tr"
| "stitch_calls (_ # tr) = stitch_calls tr"

fun imread_calls :: "'img event list \<Rightarrow> string list" where
  "imread_calls [] = []"
| "imread_calls (Imread p # tr) = p # imread_calls tr"
| "imread_calls (_ # tr) = imread_calls tr"

fun imwrite_calls :: "'img event list \<Rightarrow> (string \<times> 'img) list" where
  "imwrite_calls [] = []"
| "imwrite_calls (Imwrite p img # tr) = (p, img) # imwrite_calls tr"
| "imwrite_calls (_ # tr) = imwrite_calls tr"

text \<open>
  The spec's wording of the discovery filter: the name ends in the extension, compared
  without regard to case.
\<close>

definition ends_with_ci :: "string \<Rightarrow> string \<Rightarrow> bool" where
  "ends_with_ci name ext \<longleftrightarrow>
     length ext \<le> length name \<and>
     lower (drop (length name - length ext) name) = lower ext"

definition is_image_name :: "string \<Rightarrow> bool" where
  "is_image_name name \<longleftrightarrow>
     ends_with_ci name ''.jpg'' \<or> ends_with_ci name ''.jpeg'' \<or> ends_with_ci name ''.png''"

subsection \<open>Example environments\<close>

text \<open>
  A library whose calls never raise: the directory lists \<open>names\<close>, \<open>decode\<close> says which
  paths decode (to a raster, here a number), the engine answers \<open>engine\<close> whatever it is
  given, and \<open>imwrite\<close> reports \<open>written\<close>.
\<close>

definition example_env ::
  "string list \<Rightarrow> (string \<Rightarrow> nat option) \<Rightarrow> int \<times> nat option \<Rightarrow> bool \<Rightarrow> nat env" where
  "example_env names decode engine written =
     \<lparr> listdir = (\<lambda>d. Inr names),
       imread = (\<lambda>p. Inr (decode p)),
       stitch = (\<lambda>imgs. Inr engine),
       imwrite = (\<lambda>p img. Inr written) \<rparr>"

definition two_photos :: "string \<Rightarrow> nat option" where
  "two_photos = map_of [(''photos/a.jpg'', 1), (''photos/b.PNG'', 2)]"

definition only_first :: "string \<Rightarrow> nat option" where
  "only_first = map_of [(''photos/a.jpg'', 1)]"

definition only_second :: "string \<Rightarrow> nat option" where
  "only_second = map_of [(''photos/b.PNG'', 2)]"

lemmas example_defs = example_env_def two_photos_def only_first_def only_second_def

lemmas scan_eval =
  scan_images_def endswith_def supported_extensions_def lower_def lower_char_def
  suffix_to_prefix path_join_def

section \<open>Basic facts\<close>

subsection \<open>Suffixes and lower case\<close>

lemma suffix_iff_drop:
  "suffix xs ys \<longleftrightarrow> length xs \<le> length ys \<and> drop (length ys - length xs) ys = xs"
proof
  assume "suffix xs ys"
  then obtain zs where "ys = zs @ xs" by (auto simp: suffix_def)
  then show "length xs \<le> length ys \<and> drop (length ys - length xs) ys = xs" by simp
next
  assume h: "length xs \<le> length ys \<and> drop (length ys - length xs) ys = xs"
  have "ys = take (length ys - length xs) ys @ drop (length ys - length xs) ys" by simp
  with h have "ys = take (length ys - length xs) ys @ xs" by simp
  then show "suffix xs ys" unfolding suffix_def by blast
qed

lemma lower_length [simp]: "length (lower s) = length s"
  by (simp add: lower_def)

lemma lower_drop: "drop n (lower s) = lower (drop n s)"
  by (simp add: lower_def drop_map)

lemma suffix_lower_iff:
  "lower ext = ext \<Longrightarrow> suffix ext (lower name) \<longleftrightarrow> ends_with_ci name ext"
  by (auto simp: suffix_iff_drop ends_with_ci_def lower_drop)

lemma lower_exts:
  "lower ''.jpg'' = ''.jpg''" "lower ''.jpeg'' = ''.jpeg''" "lower ''.png'' = ''.png''"
  by (simp_all add: lower_def lower_char_def)

lemma endswith_lower_iff:
  "endswith (lower name) supported_extensions \<longleftrightarrow> is_image_name name"
  by (simp add: endswith_def supported_extensions_def is_image_name_def
        suffix_lower_iff lower_exts)

subsection \<open>Traces\<close>

lemma stitch_calls_append [simp]: "stitch_calls (a @ b) = stitch_calls a @ stitch_calls b"
  by (induction a rule: stitch_calls.induct) auto

lemma imwrite_calls_append [simp]: "imwrite_calls (a @ b) = imwrite_calls a @ imwrite_calls b"
  by (induction a rule: imwrite_calls.induct) auto

lemma imread_calls_append [simp]: "imread_calls (a @ b) = imread_calls a @ imread_calls b"
  by (induction a rule: imread_calls.induct) auto

lemma log_records_append [simp]: "log_records (a @ b) = log_records a @ log_records b"
  by (induction a rule: log_records.induct) auto

lemma calls_map_Imread [simp]:
  "stitch_calls (map Imread fs) = []" "imwrite_calls (map Imread fs) = []"
  "log_records (map Imread fs) = []" "imread_calls (map Imread fs) = fs"
  by (induction fs) auto

subsection \<open>Loading\<close>

text \<open>When no read raises, the comprehension reads every path and keeps the order.\<close>

lemma imread_all_returns:
  "map (imread env) fs = map Inr images \<Longrightarrow> imread_all env fs = (map Imread fs, Inr images)"
proof (induction fs arbitrary: images)
  case Nil
  then show ?case by simp
next
  case (Cons f fs)
  then obtain i is' where im: "images = i # is'" by (cases images) auto
  with Cons.prems have "imread env f = Inr i" "map (imread env) fs = map Inr is'" by auto
  with Cons.IH [of is'] im show ?case by simp
qed

lemma imread_all_trace:
  "stitch_calls (fst (imread_all env fs)) = [] \<and> imwrite_calls (fst (imread_all env fs)) = []
   \<and> log_records (fst (imread_all env fs)) = []"
  by (induction fs) (auto split: sum.splits prod.splits)

lemma list_ex_None: "list_ex (\<lambda>img. img = None) images \<longleftrightarrow> None \<in> set images"
  by (auto simp: list_ex_iff)

subsection \<open>The outcomes of \<open>create_panorama\<close>\<close>

lemma create_panorama_undecodable:
  assumes "map (imread env) fs = map Inr images" and "None \<in> set images"
  shows "create_panorama env fs =
           ([Log INFO (''Stitching '' @ str_nat (length fs) @ '' images into a panorama.'')]
              @ map Imread fs @ [Log ERROR ''One or more images could not be loaded.''],
            Inr None)"
  using assms by (simp add: create_panorama_def imread_all_returns list_ex_None)

lemma create_panorama_on_engine_failure:
  assumes "map (imread env) fs = map Inr images" and "None \<notin> set images"
    and "stitch env images = Inr (status, pano)" and "status \<noteq> Stitcher_OK"
  shows "create_panorama env fs =
           ([Log INFO (''Stitching '' @ str_nat (length fs) @ '' images into a panorama.'')]
              @ map Imread fs
              @ [StitcherCreate, Stitch images,
                 Log ERROR (''Failed to stitch images, error code: '' @ str_int status)],
            Inr None)"
  using assms by (simp add: create_panorama_def imread_all_returns list_ex_None)

lemma create_panorama_failure_None:
  assumes "map (imread env) fs = map Inr images"
    and "None \<in> set images \<or> (stitch env images = Inr (status, pano) \<and> status \<noteq> Stitcher_OK)"
  shows "snd (create_panorama env fs) = Inr None"
proof (cases "None \<in> set images")
  case True
  with assms(1) show ?thesis by (simp add: create_panorama_undecodable)
next
  case False
  with assms show ?thesis by (simp add: create_panorama_on_engine_failure)
qed

lemma create_panorama_trace_no_write:
  "imwrite_calls (fst (create_panorama env fs)) = []"
  using imread_all_trace [of env fs]
  by (auto simp: create_panorama_def Let_def split: sum.splits prod.splits)

lemma create_panorama_failed_call:
  assumes "imgs \<in> set (stitch_calls (fst (create_panorama env fs)))"
    and "stitch env imgs = Inr (status, pano)" and "status \<noteq> Stitcher_OK"
  shows "snd (create_panorama env fs) = Inr None"
  using assms imread_all_trace [of env fs]
  by (auto simp: create_panorama_def Let_def split: sum.splits prod.splits if_splits)

lemma scan_images_trace:
  "stitch_calls (fst (scan_images env d)) = [] \<and> imwrite_calls (fst (scan_images env d)) = []
   \<and> imread_calls (fst (scan_images env d)) = []"
  by (simp add: scan_images_def Let_def split: sum.splits)

section \<open>Discovery\<close>

text \<open>
  Claim C6. For every directory listing, \<open>scan_images\<close> returns exactly the entries whose
  names end in \<open>.jpg\<close>, \<open>.jpeg\<close> or \<open>.png\<close>, compared without regard to case, in the
  order of the listing and each joined to the directory; an entry with any other
  extension is left out and the call still returns a list, never an error.
\<close>

theorem scan_images_selects_image_names:
  assumes "listdir env directory = Inr names"
  shows "snd (scan_images env directory) =
           Inr (map (path_join directory) (filter is_image_name names))"
  using assms by (simp add: scan_images_def Let_def endswith_lower_iff)

theorem scan_images_selects_image_names_witness:
  "listdir (example_env [''a.jpg'', ''notes.txt'', ''b.PNG'', ''jpg''] two_photos (0, Some 3) True)
      ''photos'' = Inr [''a.jpg'', ''notes.txt'', ''b.PNG'', ''jpg''] \<and>
   snd (scan_images
          (example_env [''a.jpg'', ''notes.txt'', ''b.PNG'', ''jpg''] two_photos (0, Some 3) True)
          ''photos'') = Inr [''photos/a.jpg'', ''photos/b.PNG'']"
  using scan_images_selects_image_names
    [where env = "example_env [''a.jpg'', ''notes.txt'', ''b.PNG'', ''jpg''] two_photos (0, Some 3) True"
       and directory = "''photos''" and names = "[''a.jpg'', ''notes.txt'', ''b.PNG'', ''jpg'']"]
  by (simp add: example_env_def is_image_name_def ends_with_ci_def lower_def lower_char_def
        path_join_def suffix_to_prefix)

section \<open>Loading and stitching\<close>

text \<open>
  Claim C7. For every input path list whose files all decode, \<open>create_panorama\<close> invokes
  the stitching engine exactly once, and the argument of that call is the list of decoded
  images in the order of the input paths. (The list \<open>images\<close> is, position by position,
  what \<open>imread\<close> returned for the paths; an empty path list is covered too.)
\<close>

theorem engine_invoked_once_in_input_order:
  assumes "map (imread env) image_files = map Inr images" and "None \<notin> set images"
  shows "stitch_calls (fst (create_panorama env image_files)) = [images]"
  using assms
  by (simp add: create_panorama_def imread_all_returns list_ex_None Let_def
        split: sum.splits)

theorem engine_invoked_once_in_input_order_witness:
  "map (imread (example_env [] two_photos (0, Some 3) True)) [''photos/a.jpg'', ''photos/b.PNG'']
     = map Inr [Some 1, Some 2] \<and>
   None \<notin> set [Some (1::nat), Some 2] \<and>
   stitch_calls (fst (create_panorama (example_env [] two_photos (0, Some 3) True)
      [''photos/a.jpg'', ''photos/b.PNG''])) = [[Some 1, Some 2]]"
  using engine_invoked_once_in_input_order
    [where env = "example_env [] two_photos (0, Some 3) True"
       and image_files = "[''photos/a.jpg'', ''photos/b.PNG'']" and images = "[Some 1, Some 2]"]
  by (simp add: example_defs)

text \<open>
  Claim C10. The result of \<open>create_panorama\<close> is \<open>None\<close> for every input on which loading
  fails (some file does not decode) and for every input on which the engine returns a
  status other than OK: the returned value is the same in all these cases, so it tells the
  caller neither which kind of failure happened nor which status code the engine gave.
\<close>

theorem create_panorama_failures_all_None:
  assumes "map (imread env) image_files = map Inr images"
    and "None \<in> set images \<or> (stitch env images = Inr (status, pano) \<and> status \<noteq> Stitcher_OK)"
  shows "snd (create_panorama env image_files) = Inr None"
  using assms by (rule create_panorama_failure_None)

theorem create_panorama_failures_all_None_witness:
  "None \<in> set [None, Some (2::nat)] \<and>
   snd (create_panorama (example_env [] only_second (0, Some 3) True)
          [''photos/a.jpg'', ''photos/b.PNG'']) = Inr None \<and>
   stitch (example_env [] two_photos (1, None) True) [Some 1] = Inr (1, None) \<and>
   1 \<noteq> Stitcher_OK \<and>
   snd (create_panorama (example_env [] two_photos (1, None) True) [''photos/a.jpg'']) = Inr None"
  using
    create_panorama_failures_all_None
      [where env = "example_env [] only_second (0, Some 3) True"
         and image_files = "[''photos/a.jpg'', ''photos/b.PNG'']" and images = "[None, Some 2]"
         and status = 0 and pano = "Some 3"]
    create_panorama_failures_all_None
      [where env = "example_env [] two_photos (1, None) True"
         and image_files = "[''photos/a.jpg'']" and images = "[Some 1]"
         and status = 1 and pano = None]
  by (simp add: example_defs Stitcher_OK_def)




text \<open>
  Claim C2, as amended. For every input path list in which at least one path fails to
  decode, \<open>create_panorama\<close> reads every path of the list, then fails as a whole: it
  returns \<open>None\<close>, no subset of the images is used and the stitching engine is never
  invoked. The failure is reported by the one log record \<open>One or more images could not
  be loaded.\<close>, which does not say which path failed.
\<close>

theorem load_failure_generic_error_no_stitch:
  assumes "map (imread env) image_files = map Inr images" and "None \<in> set images"
  shows "snd (create_panorama env image_files) = Inr None \<and>
         imread_calls (fst (create_panorama env image_files)) = image_files \<and>
         stitch_calls (fst (create_panorama env image_files)) = [] \<and>
         log_records (fst (create_panorama env image_files)) =
           [(INFO, ''Stitching '' @ str_nat (length image_files) @ '' images into a panorama.''),
            (ERROR, ''One or more images could not be loaded.'')]"
  using assms by (simp add: create_panorama_undecodable)

theorem load_failure_generic_error_no_stitch_witness:
  "map (imread (example_env [] only_second (0, Some 3) True)) [''photos/a.jpg'', ''photos/b.PNG'']
     = map Inr [None, Some 2] \<and>
   None \<in> set [None, Some (2::nat)] \<and>
   snd (create_panorama (example_env [] only_second (0, Some 3) True)
      [''photos/a.jpg'', ''photos/b.PNG'']) = Inr None \<and>
   stitch_calls (fst (create_panorama (example_env [] only_second (0, Some 3) True)
      [''photos/a.jpg'', ''photos/b.PNG''])) = [] \<and>
   log_records (fst (create_panorama (example_env [] only_second (0, Some 3) True)
      [''photos/a.jpg'', ''photos/b.PNG''])) =
     [(INFO, ''Stitching 2 images into a panorama.''),
      (ERROR, ''One or more images could not be loaded.'')]"
  using load_failure_generic_error_no_stitch
    [where env = "example_env [] only_second (0, Some 3) True"
       and image_files = "[''photos/a.jpg'', ''photos/b.PNG'']" and images = "[None, Some 2]"]
  by (simp add: example_defs str_nat.simps)

text \<open>
  The claim as written asks for an error that refers to the failing path. With the first
  file undecodable in one run and the second in the other, \<open>create_panorama\<close> gives the
  same value and the same trace, log records included: nothing in the outcome names the
  file.
\<close>

theorem load_failure_path_not_reported:
  "imread (example_env [] only_second (0, Some 3) True) ''photos/a.jpg'' = Inr None \<and>
   imread (example_env [] only_second (0, Some 3) True) ''photos/b.PNG'' = Inr (Some 2) \<and>
   imread (example_env [] only_first (0, Some 3) True) ''photos/a.jpg'' = Inr (Some 1) \<and>
   imread (example_env [] only_first (0, Some 3) True) ''photos/b.PNG'' = Inr None \<and>
   create_panorama (example_env [] only_second (0, Some 3) True)
       [''photos/a.jpg'', ''photos/b.PNG'']
     = create_panorama (example_env [] only_first (0, Some 3) True)
         [''photos/a.jpg'', ''photos/b.PNG'']"
  by (simp add: example_defs create_panorama_def)

section \<open>The whole run\<close>

text \<open>
  Claim C5. For every run whose directory discovery yields an empty image list, \<open>main\<close>
  stops with the input error (the ERROR record \<open>No images found to process. Exiting
  program.\<close> is the last thing it logs, and it returns) without ever invoking the decode
  step: no image is read, no stitch is attempted and nothing is written.
\<close>

theorem empty_discovery_stops_before_loading:
  assumes "snd (scan_images env input_dir) = Inr []"
  shows "snd (main env input_dir) = Inr () \<and>
         last (log_records (fst (main env input_dir))) =
           (ERROR, ''No images found to process. Exiting program.'') \<and>
         imread_calls (fst (main env input_dir)) = [] \<and>
         stitch_calls (fst (main env input_dir)) = [] \<and>
         imwrite_calls (fst (main env input_dir)) = []"
  using assms scan_images_trace [of env input_dir]
  by (cases "scan_images env input_dir") (simp add: main_def)

theorem empty_discovery_stops_before_loading_witness:
  "snd (scan_images (example_env [''notes.txt''] two_photos (0, Some 3) True) ''photos'') = Inr [] \<and>
   snd (main (example_env [''notes.txt''] two_photos (0, Some 3) True) ''photos'') = Inr () \<and>
   last (log_records (fst (main (example_env [''notes.txt''] two_photos (0, Some 3) True)
      ''photos''))) = (ERROR, ''No images found to process. Exiting program.'') \<and>
   imread_calls (fst (main (example_env [''notes.txt''] two_photos (0, Some 3) True) ''photos''))
     = []"
  using empty_discovery_stops_before_loading
    [where env = "example_env [''notes.txt''] two_photos (0, Some 3) True"
       and input_dir = "''photos''"]
  by (simp add: example_defs scan_eval)

text \<open>
  Claim C4. For every run in which the stitching engine reports a failure code (the engine
  was invoked on some image list and answered with a status other than OK), \<open>save_image\<close>
  is never invoked: the trace of the run has no \<open>imwrite\<close> call, so the run creates or
  overwrites no output file.
\<close>

theorem engine_failure_never_writes:
  assumes "imgs \<in> set (stitch_calls (fst (main env input_dir)))"
    and "stitch env imgs = Inr (status, pano)" and "status \<noteq> Stitcher_OK"
  shows "imwrite_calls (fst (main env input_dir)) = []"
proof (cases "scan_images env input_dir")
  case (Pair tr0 r)
  have tr0: "stitch_calls tr0 = []" "imwrite_calls tr0 = []"
    using scan_images_trace [of env input_dir] Pair by simp_all
  show ?thesis
  proof (cases r)
    case (Inl e)
    with Pair tr0 show ?thesis by (simp add: main_def)
  next
    case (Inr image_files)
    show ?thesis
    proof (cases "image_files = []")
      case True
      with Pair Inr tr0 show ?thesis by (simp add: main_def)
    next
      case False
      obtain tr1 r1 where cp: "create_panorama env image_files = (tr1, r1)"
        by (cases "create_panorama env image_files")
      have nw: "imwrite_calls tr1 = []"
        using create_panorama_trace_no_write [of env image_files] cp by simp
      have "imgs \<in> set (stitch_calls tr1)"
        using assms(1) Pair Inr False cp tr0
        by (auto simp: main_def save_image_def split: sum.splits option.splits)
      then have "r1 = Inr None"
        using create_panorama_failed_call [of imgs env image_files status pano] assms(2,3) cp
        by simp
      with Pair Inr False cp tr0 nw show ?thesis by (simp add: main_def)
    qed
  qed
qed

theorem engine_failure_never_writes_witness:
  "[Some 1] \<in> set (stitch_calls
      (fst (main (example_env [''a.jpg''] two_photos (1, None) True) ''photos''))) \<and>
   stitch (example_env [''a.jpg''] two_photos (1, None) True) [Some 1] = Inr (1, None) \<and>
   1 \<noteq> Stitcher_OK \<and>
   imwrite_calls (fst (main (example_env [''a.jpg''] two_photos (1, None) True) ''photos'')) = []"
  using engine_failure_never_writes
    [where imgs = "[Some 1]" and env = "example_env [''a.jpg''] two_photos (1, None) True"
       and input_dir = "''photos''" and status = 1 and pano = None]
  by (simp add: example_defs main_def create_panorama_def scan_eval Stitcher_OK_def)

text \<open>
  Claim C3, as amended. For every run that ends in an empty discovery, in a load failure
  (some discovered file does not decode) or in a stitch failure (the engine returns a
  status other than OK), the run never calls \<open>imwrite\<close>, so it produces no output file,
  and \<open>main\<close> returns normally: the process exits with status 0.
\<close>

theorem failed_run_writes_nothing_exits_zero:
  assumes "snd (scan_images env input_dir) = Inr image_files"
    and "image_files = [] \<or>
         (map (imread env) image_files = map Inr images \<and>
          (None \<in> set images \<or>
           (stitch env images = Inr (status, pano) \<and> status \<noteq> Stitcher_OK)))"
  shows "imwrite_calls (fst (main env input_dir)) = [] \<and>
         exit_status (snd (main env input_dir)) = 0"
proof (cases "scan_images env input_dir")
  case (Pair tr0 r)
  with assms(1) have r: "r = Inr image_files" by simp
  have tr0: "imwrite_calls tr0 = []"
    using scan_images_trace [of env input_dir] Pair by simp
  show ?thesis
  proof (cases "image_files = []")
    case True
    with Pair r tr0 show ?thesis by (simp add: main_def)
  next
    case False
    with assms(2) have "snd (create_panorama env image_files) = Inr None"
      using create_panorama_failure_None [of env image_files images status pano] by blast
    then obtain tr1 where cp: "create_panorama env image_files = (tr1, Inr None)"
      by (cases "create_panorama env image_files") simp
    have "imwrite_calls tr1 = []"
      using create_panorama_trace_no_write [of env image_files] cp by simp
    with Pair r False cp tr0 show ?thesis by (simp add: main_def)
  qed
qed

theorem failed_run_writes_nothing_exits_zero_witness:
  "snd (scan_images (example_env [''a.jpg''] two_photos (1, None) True) ''photos'')
     = Inr [''photos/a.jpg''] \<and>
   map (imread (example_env [''a.jpg''] two_photos (1, None) True)) [''photos/a.jpg'']
     = map Inr [Some 1] \<and>
   stitch (example_env [''a.jpg''] two_photos (1, None) True) [Some 1] = Inr (1, None) \<and>
   1 \<noteq> Stitcher_OK \<and>
   imwrite_calls (fst (main (example_env [''a.jpg''] two_photos (1, None) True) ''photos'')) = [] \<and>
   exit_status (snd (main (example_env [''a.jpg''] two_photos (1, None) True) ''photos'')) = 0 \<and>
   snd (scan_images (example_env [''a.jpg'', ''b.PNG''] only_second (0, Some 3) True) ''photos'')
     = Inr [''photos/a.jpg'', ''photos/b.PNG''] \<and>
   None \<in> set [None, Some (2::nat)] \<and>
   imwrite_calls (fst (main (example_env [''a.jpg'', ''b.PNG''] only_second (0, Some 3) True)
      ''photos'')) = [] \<and>
   exit_status (snd (main (example_env [''a.jpg'', ''b.PNG''] only_second (0, Some 3) True)
      ''photos'')) = 0"
  using
    failed_run_writes_nothing_exits_zero
      [where env = "example_env [''a.jpg''] two_photos (1, None) True"
         and input_dir = "''photos''" and image_files = "[''photos/a.jpg'']"
         and images = "[Some 1]" and status = 1 and pano = None]
    failed_run_writes_nothing_exits_zero
      [where env = "example_env [''a.jpg'', ''b.PNG''] only_second (0, Some 3) True"
         and input_dir = "''photos''" and image_files = "[''photos/a.jpg'', ''photos/b.PNG'']"
         and images = "[None, Some 2]" and status = 0 and pano = "Some 3"]
  by (simp add: example_defs scan_eval Stitcher_OK_def)

text \<open>
  The claim as written asks for a non-zero exit status after any error. A run on a
  directory without image files ends in the input error, and \<open>main\<close> returns: the exit
  status is 0.
\<close>

theorem empty_discovery_exit_status_zero:
  "snd (scan_images (example_env [''notes.txt''] two_photos (0, Some 3) True) ''photos'') = Inr [] \<and>
   main (example_env [''notes.txt''] two_photos (0, Some 3) True) ''photos''
     = ([Listdir ''photos'', Log WARNING ''No image files found in the directory.'',
         Log ERROR ''No images found to process. Exiting program.''], Inr ()) \<and>
   exit_status (snd (main (example_env [''notes.txt''] two_photos (0, Some 3) True) ''photos''))
     = 0"
  by (simp add: example_defs main_def scan_eval)

section \<open>Writing\<close>

text \<open>
  Claim C8. For every write attempt where the destination cannot be created,
  \<open>save_image\<close> is to report a write error to its caller rather than success, without
  retrying. The code does not do this. \<open>cv2.imwrite\<close> answers \<open>False\<close> when nothing was
  written; \<open>save_image\<close> drops that answer, logs \<open>Panorama saved as ...\<close> at level INFO
  and returns as after a successful write, although its docstring says that it saves the
  image and although the results of \<open>imread\<close> and \<open>stitch\<close> are checked and logged at
  level ERROR in \<open>create_panorama\<close>. The evaluation below is the code at such an input:
  one \<open>imwrite\<close> call that reports \<open>False\<close>, the success record, and a value and a trace
  equal to those of the run in which the file was written.
\<close>

theorem save_image_failed_write_looks_saved:
  "imwrite (example_env [] two_photos (0, Some 3) False) ''panorama_output.jpg'' 3 = Inr False \<and>
   imwrite (example_env [] two_photos (0, Some 3) True) ''panorama_output.jpg'' 3 = Inr True \<and>
   save_image (example_env [] two_photos (0, Some 3) False) 3 ''panorama_output.jpg''
     = ([Imwrite ''panorama_output.jpg'' 3, Log INFO ''Panorama saved as panorama_output.jpg''],
        Inr ()) \<and>
   save_image (example_env [] two_photos (0, Some 3) False) 3 ''panorama_output.jpg''
     = save_image (example_env [] two_photos (0, Some 3) True) 3 ''panorama_output.jpg''"
  by (simp add: example_defs save_image_def)

end
